theory Spec2Isabelle
  imports Complex_Main "HOL-Library.Log_Nat"
begin

section \<open>JavaScript numbers\<close>

text \<open>
  The handler computes its totals with JavaScript's \<open>+\<close>, \<open>-\<close> and \<open>*\<close> on numbers, that
  is on IEEE 754 doubles: every result is rounded to the nearest double, ties to the even
  significand, and there are two infinities and NaN. A finite double is kept as the
  real number it stands for. The two zeros are one value here: the handler never divides, so
  no result of its arithmetic depends on the sign of a zero.
\<close>

datatype number = NaN | PosInf | NegInf | Fin real

definition pow2 :: "int \<Rightarrow> real" where
  "pow2 d = (if 0 \<le> d then 2 ^ nat d else 1 / 2 ^ nat (- d))"

definition round_half_even :: "real \<Rightarrow> int" where
  "round_half_even y =
     (let f = \<lfloor>y\<rfloor>; r = y - of_int f
      in if r < 1 / 2 then f else if 1 / 2 < r then f + 1 else if even f then f else f + 1)"

text \<open>
  For \<open>x > 0\<close>, the \<open>e\<close> with \<open>2 ^ e \<le> x < 2 ^ (e + 1)\<close>, from the bit length of the whole
  part of \<open>x\<close> or of \<open>1 / x\<close>.
\<close>

definition exponent :: "real \<Rightarrow> int" where
  "exponent x =
     (if 1 \<le> x then bitlen \<lfloor>x\<rfloor> - 1
      else let k = bitlen \<lfloor>1 / x\<rfloor> in if pow2 (1 - k) \<le> x then 1 - k else - k)"

text \<open>
  Rounding a positive real: 53 bits of significand, spacing never finer than
  \<open>2 ^ - 1074\<close> (the subnormals), and what rounds up to \<open>2 ^ 1024\<close> is infinite.
\<close>

definition round_pos :: "real \<Rightarrow> number" where
  "round_pos x =
     (let q = max (exponent x - 52) (- 1074);
          v = of_int (round_half_even (x / pow2 q)) * pow2 q
      in if pow2 1024 \<le> v then PosInf else Fin v)"

fun negate :: "number \<Rightarrow> number" where
  "negate NaN = NaN"
| "negate PosInf = NegInf"
| "negate NegInf = PosInf"
| "negate (Fin v) = Fin (- v)"

definition round_double :: "real \<Rightarrow> number" where
  "round_double x =
     (if x = 0 then Fin 0 else if 0 < x then round_pos x else negate (round_pos (- x)))"

fun js_add :: "number \<Rightarrow> number \<Rightarrow> number" where
  "js_add NaN y = NaN"
| "js_add x NaN = NaN"
| "js_add PosInf NegInf = NaN"
| "js_add NegInf PosInf = NaN"
| "js_add PosInf y = PosInf"
| "js_add NegInf y = NegInf"
| "js_add x PosInf = PosInf"
| "js_add x NegInf = NegInf"
| "js_add (Fin a) (Fin b) = round_double (a + b)"

definition js_sub :: "number \<Rightarrow> number \<Rightarrow> number" where
  "js_sub x y = js_add x (negate y)"

fun js_mul :: "number \<Rightarrow> number \<Rightarrow> number" where
  "js_mul NaN y = NaN"
| "js_mul x NaN = NaN"
| "js_mul PosInf PosInf = PosInf"
| "js_mul PosInf NegInf = NegInf"
| "js_mul NegInf PosInf = NegInf"
| "js_mul NegInf NegInf = PosInf"
| "js_mul PosInf (Fin b) = (if b = 0 then NaN else if 0 < b then PosInf else NegInf)"
| "js_mul NegInf (Fin b) = (if b = 0 then NaN else if 0 < b then NegInf else PosInf)"
| "js_mul (Fin a) PosInf = (if a = 0 then NaN else if 0 < a then PosInf else NegInf)"
| "js_mul (Fin a) NegInf = (if a = 0 then NaN else if 0 < a then NegInf else PosInf)"
| "js_mul (Fin a) (Fin b) = round_double (a * b)"

text \<open>A whole number as the double JavaScript holds for it.\<close>

definition to_number :: "int \<Rightarrow> number" where
  "to_number k = round_double (of_int k)"

section \<open>The store: products, sales and sale items\<close>

text \<open>
  The three tables the sale endpoint reads and writes, as \<open>initializeDatabase\<close> creates
  them. A row of \<open>products\<close> is found by its \<open>id\<close> (the primary key), so the table is a
  map from ids to rows; \<open>sales\<close> and \<open>sale_items\<close> are only appended to, so they are lists
  in insertion order. Columns declared \<open>INTEGER\<close> are \<open>int\<close>, columns declared \<open>REAL\<close>
  are numbers. SQLite keeps no NaN: it stores NULL in its place, so a NaN in a column that
  allows NULL stands for that NULL. Timestamps are seconds on some clock.
\<close>

record product =
  name :: string
  category :: string
  barcode :: "string option"
  cost :: number
  price :: number
  stock :: int
  min_stock :: int
  created_at :: nat
  updated_at :: nat

record sale =
  sale_id :: int
  sale_total :: number
  sale_profit :: number
  sale_created_at :: nat

record sale_item =
  si_id :: int
  si_sale_id :: int
  si_product_id :: int
  si_product_name :: string
  si_quantity :: int
  si_price :: number
  si_cost :: number

text \<open>
  Both id columns are \<open>AUTOINCREMENT\<close>: the next id is one more than the largest id the
  table ever handed out, which the store keeps in \<open>sales_seq\<close> and \<open>sale_items_seq\<close>.
\<close>

record store =
  products :: "int \<rightharpoonup> product"
  sales :: "sale list"
  sale_items :: "sale_item list"
  sales_seq :: int
  sale_items_seq :: int

text \<open>
  One element of \<open>req.body.items\<close>. Every field comes from the client, \<open>item.price\<close> and
  \<open>item.cost\<close> included. A price or cost is a JSON number or is missing: it is the double
  of the number (infinite when the literal is out of range) and, as \<open>*\<close> takes a missing
  field, NaN when missing. Quantities are whole numbers that a double holds exactly.
  Fields of any other JSON type are not modelled.
\<close>

record item =
  item_product_id :: int
  item_product_name :: string
  item_quantity :: int
  item_price :: number
  item_cost :: number

text \<open>
  The error messages of the endpoint (\<open>'No items in sale'\<close>, \<open>Product <id> not found\<close>,
  \<open>Insufficient stock for product <id>\<close>, and the message of a database error), and its
  two responses: \<open>res.status(n).json({error})\<close> and
  \<open>res.json({id, total, profit, message})\<close>.
\<close>

datatype error = NoItems | ProductNotFound int | InsufficientStock int | StorageError

datatype response = Failure nat error | Success int number number

text \<open>
  (An infinite total or profit reaches the client as \<open>null\<close>, which is how JSON writes it;
  the response here keeps the number.)
\<close>

section \<open>POST /api/sales, with the stock check\<close>

text \<open>
  The callback of \<open>db.get("SELECT stock FROM products WHERE id = ?", [item.product_id])\<close>:
  no row rejects with "not found", a row whose stock is less than this line's quantity
  rejects with "insufficient stock", anything else resolves. The \<open>SELECT\<close> itself is taken
  to succeed.
\<close>

definition check :: "store \<Rightarrow> item \<Rightarrow> error option" where
  "check s it =
     (case products s (item_product_id it) of
        None \<Rightarrow> Some (ProductNotFound (item_product_id it))
      | Some row \<Rightarrow>
          if stock row < item_quantity it then Some (InsufficientStock (item_product_id it))
          else None)"

definition checkPromises :: "store \<Rightarrow> item list \<Rightarrow> error option list" where
  "checkPromises s items = map (check s) items"

text \<open>
  \<open>Promise.all\<close> rejects with the first rejection. The queries were queued in cart order
  inside \<open>db.serialize\<close> and no write of this request is issued before all of them have
  answered, so the first rejection is that of the first failing line.
\<close>

fun promise_all :: "error option list \<Rightarrow> error option" where
  "promise_all [] = None"
| "promise_all (Some e # rest) = Some e"
| "promise_all (None # rest) = promise_all rest"

text \<open>
  The two accumulators of the \<open>forEach\<close> that calculates the totals, both starting at 0:
  \<open>total += item.price * item.quantity\<close> and \<open>totalCost += item.cost * item.quantity\<close>.
\<close>

definition calc_total :: "item list \<Rightarrow> number" where
  "calc_total items =
     foldl (\<lambda>tot it. js_add tot (js_mul (item_price it) (to_number (item_quantity it))))
       (Fin 0) items"

definition calc_totalCost :: "item list \<Rightarrow> number" where
  "calc_totalCost items =
     foldl (\<lambda>totalCost it.
              js_add totalCost (js_mul (item_cost it) (to_number (item_quantity it))))
       (Fin 0) items"

text \<open>
  The writes of one request are numbered in the order the handler issues them: write 0 is
  the \<open>INSERT INTO sales\<close>, and for the line at position \<open>i\<close> write \<open>2 * i + 1\<close> is its
  \<open>INSERT INTO sale_items\<close> and write \<open>2 * i + 2\<close> its \<open>UPDATE products\<close>. A fault plan
  says which of them take no effect: because the database refuses the statement, or, for
  the item inserts and stock updates (which have no callback), because the process died
  on the unhandled error of an earlier one before the statement ran. Each statement is its
  own transaction (the handler opens none), so a write that takes no effect undoes
  nothing of the others. Not every plan can happen; what holds for every plan holds for
  those that can.
\<close>

type_synonym faults = "nat \<Rightarrow> bool"

definition no_faults :: faults where
  "no_faults = (\<lambda>k. False)"

definition insert_sale :: "nat \<Rightarrow> number \<Rightarrow> number \<Rightarrow> store \<Rightarrow> store" where
  "insert_sale now tot profit s =
     s\<lparr>sales := sales s @
            [\<lparr>sale_id = sales_seq s + 1, sale_total = tot, sale_profit = profit,
              sale_created_at = now\<rparr>],
       sales_seq := sales_seq s + 1\<rparr>"

definition insert_sale_item :: "bool \<Rightarrow> int \<Rightarrow> item \<Rightarrow> store \<Rightarrow> store" where
  "insert_sale_item refused saleId it s =
     (if refused then s
      else s\<lparr>sale_items := sale_items s @
                 [\<lparr>si_id = sale_items_seq s + 1, si_sale_id = saleId,
                   si_product_id = item_product_id it,
                   si_product_name = item_product_name it,
                   si_quantity = item_quantity it,
                   si_price = item_price it, si_cost = item_cost it\<rparr>],
             sale_items_seq := sale_items_seq s + 1\<rparr>)"

text \<open>\<open>UPDATE products SET stock = stock - ? WHERE id = ?\<close>: no row, no change.\<close>

definition update_stock :: "bool \<Rightarrow> int \<Rightarrow> int \<Rightarrow> store \<Rightarrow> store" where
  "update_stock refused quantity pid s =
     (if refused then s
      else (case products s pid of
              None \<Rightarrow> s
            | Some row \<Rightarrow>
                s\<lparr>products := (products s)(pid \<mapsto> row\<lparr>stock := stock row - quantity\<rparr>)\<rparr>))"

text \<open>
  The \<open>forEach\<close> over the items inside the callback of the sale insert; \<open>k\<close> is the number
  of the next write.
\<close>

fun write_items :: "faults \<Rightarrow> int \<Rightarrow> nat \<Rightarrow> item list \<Rightarrow> store \<Rightarrow> store" where
  "write_items plan saleId k [] s = s"
| "write_items plan saleId k (it # rest) s =
     write_items plan saleId (k + 2) rest
       (update_stock (plan (k + 1)) (item_quantity it) (item_product_id it)
          (insert_sale_item (plan k) saleId it s))"

text \<open>
  Whether the \<open>INSERT INTO sales (total, profit)\<close> fails: when the plan says so, and
  whenever total or profit is NaN, because SQLite binds NaN as NULL and both columns are
  \<open>NOT NULL\<close>.
\<close>

definition sale_refused :: "faults \<Rightarrow> number \<Rightarrow> number \<Rightarrow> bool" where
  "sale_refused plan tot profit = (plan 0 \<or> tot = NaN \<or> profit = NaN)"

text \<open>
  The \<open>then\<close> branch of \<open>Promise.all\<close>: totals, the sale row, then the item rows and the
  stock updates. A refused sale insert answers 500 and issues nothing more; the later
  statements have no callback, so the success response is sent whatever becomes of them.
\<close>

definition commit :: "faults \<Rightarrow> nat \<Rightarrow> store \<Rightarrow> item list \<Rightarrow> store \<times> response" where
  "commit plan now s items =
     (let tot = calc_total items;
          totalCost = calc_totalCost items;
          profit = js_sub tot totalCost
      in if sale_refused plan tot profit then (s, Failure 500 StorageError)
         else let saleId = sales_seq s + 1
              in (write_items plan saleId 1 items (insert_sale now tot profit s),
                  Success saleId tot profit))"

text \<open>
  The handler. \<open>body\<close> is \<open>req.body.items\<close>: \<open>None\<close> when the field is missing, which the
  first guard treats like the empty array. A rejected check is caught and answered 400.
\<close>

definition post_sales ::
  "faults \<Rightarrow> nat \<Rightarrow> store \<Rightarrow> item list option \<Rightarrow> store \<times> response" where
  "post_sales plan now s body =
     (case body of
        None \<Rightarrow> (s, Failure 400 NoItems)
      | Some items \<Rightarrow>
          if items = [] then (s, Failure 400 NoItems)
          else (case promise_all (checkPromises s items) of
                  Some err \<Rightarrow> (s, Failure 400 err)
                | None \<Rightarrow> commit plan now s items))"

section \<open>Two requests at once\<close>

text \<open>
  The handler reaches the database twice: once with its stock queries, queued when the
  request arrives, and once with its writes, issued from the callback that runs after the
  last query has answered. It holds no lock and opens no transaction in between, so the
  queries of a second request can be queued, and answered, before the writes of the first
  are issued. A schedule lists the order in which these two phases of the requests in
  flight reach the database; the statements of one phase are taken together.
\<close>

datatype progress = Received | Checked | Answered response

datatype event = Validate nat | Write nat

text \<open>The first half of the handler: the guard and the stock queries.\<close>

fun validate :: "store \<Rightarrow> item list option \<times> progress \<Rightarrow> item list option \<times> progress" where
  "validate s (None, Received) = (None, Answered (Failure 400 NoItems))"
| "validate s (Some items, Received) =
     (if items = [] then (Some items, Answered (Failure 400 NoItems))
      else (case promise_all (checkPromises s items) of
              Some err \<Rightarrow> (Some items, Answered (Failure 400 err))
            | None \<Rightarrow> (Some items, Checked)))"
| "validate s (body, p) = (body, p)"

text \<open>The second half: the \<open>then\<close> branch, for a request whose queries all resolved.\<close>

fun writes ::
  "faults \<Rightarrow> nat \<Rightarrow> store \<Rightarrow> item list option \<times> progress
     \<Rightarrow> store \<times> (item list option \<times> progress)" where
  "writes plan now s (Some items, Checked) =
     (case commit plan now s items of (s', r) \<Rightarrow> (s', (Some items, Answered r)))"
| "writes plan now s (body, p) = (s, (body, p))"

fun run ::
  "faults \<Rightarrow> nat \<Rightarrow> event list \<Rightarrow> store \<times> (item list option \<times> progress) list
     \<Rightarrow> store \<times> (item list option \<times> progress) list" where
  "run plan now [] (s, reqs) = (s, reqs)"
| "run plan now (Validate i # rest) (s, reqs) =
     run plan now rest
       (if i < length reqs then (s, reqs[i := validate s (reqs ! i)]) else (s, reqs))"
| "run plan now (Write i # rest) (s, reqs) =
     run plan now rest
       (if i < length reqs
        then (case writes plan now s (reqs ! i) of (s', r) \<Rightarrow> (s', reqs[i := r]))
        else (s, reqs))"

section \<open>POST /api/sales, without the stock check\<close>

text \<open>
  The other server file has the same route with no lookup at all: it adds up the totals
  (the profit line by line, \<open>profit += (item.price - item.cost) * item.quantity\<close>),
  inserts the sale and issues the same item inserts and stock updates.
\<close>

definition calc_profit :: "item list \<Rightarrow> number" where
  "calc_profit items =
     foldl (\<lambda>profit it.
              js_add profit
                (js_mul (js_sub (item_price it) (item_cost it)) (to_number (item_quantity it))))
       (Fin 0) items"

definition post_sales_unchecked ::
  "faults \<Rightarrow> nat \<Rightarrow> store \<Rightarrow> item list option \<Rightarrow> store \<times> response" where
  "post_sales_unchecked plan now s body =
     (case body of
        None \<Rightarrow> (s, Failure 400 NoItems)
      | Some items \<Rightarrow>
          if items = [] then (s, Failure 400 NoItems)
          else let tot = calc_total items;
                   profit = calc_profit items
               in if sale_refused plan tot profit then (s, Failure 500 StorageError)
                  else let saleId = sales_seq s + 1
                       in (write_items plan saleId 1 items (insert_sale now tot profit s),
                           Success saleId tot profit))"

section \<open>Vocabulary of the properties\<close>

text \<open>
  What a cart asks of one product in all: the quantities of the lines that name it, added
  up.
\<close>

definition requested :: "int \<Rightarrow> item list \<Rightarrow> int" where
  "requested pid items =
     sum_list (map item_quantity (filter (\<lambda>it. item_product_id it = pid) items))"

text \<open>
  The rows of one sale, as \<open>GET /api/sales/:id\<close> reads them:
  \<open>SELECT * FROM sale_items WHERE sale_id = ?\<close>.
\<close>

definition items_of :: "int \<Rightarrow> store \<Rightarrow> sale_item list" where
  "items_of saleId s = filter (\<lambda>si. si_sale_id si = saleId) (sale_items s)"

text \<open>
  A ledger is in order when no item row names a sale id that \<open>sales\<close> has not handed out
  yet. The empty ledger is, and the endpoint keeps it so.
\<close>

definition ledger_ok :: "store \<Rightarrow> bool" where
  "ledger_ok s = list_all (\<lambda>si. si_sale_id si \<le> sales_seq s) (sale_items s)"

text \<open>The item rows a cart turns into when every insert goes through.\<close>

fun item_rows :: "int \<Rightarrow> int \<Rightarrow> item list \<Rightarrow> sale_item list" where
  "item_rows saleId seq [] = []"
| "item_rows saleId seq (it # rest) =
     \<lparr>si_id = seq + 1, si_sale_id = saleId, si_product_id = item_product_id it,
      si_product_name = item_product_name it, si_quantity = item_quantity it,
      si_price = item_price it, si_cost = item_cost it\<rparr> # item_rows saleId (seq + 1) rest"

text \<open>
  Sums over stored item rows, computed as JavaScript would compute them, row after row
  from 0: of price times quantity, of cost times quantity, and of (price minus cost)
  times quantity.
\<close>

definition rows_total :: "sale_item list \<Rightarrow> number" where
  "rows_total rows =
     foldl (\<lambda>acc si. js_add acc (js_mul (si_price si) (to_number (si_quantity si))))
       (Fin 0) rows"

definition rows_cost :: "sale_item list \<Rightarrow> number" where
  "rows_cost rows =
     foldl (\<lambda>acc si. js_add acc (js_mul (si_cost si) (to_number (si_quantity si))))
       (Fin 0) rows"

definition rows_margin :: "sale_item list \<Rightarrow> number" where
  "rows_margin rows =
     foldl (\<lambda>acc si.
              js_add acc
                (js_mul (js_sub (si_price si) (si_cost si)) (to_number (si_quantity si))))
       (Fin 0) rows"



text \<open>A cart line with its price and cost blanked: what is left is what was asked for.\<close>

definition unpriced :: "item \<Rightarrow> item" where
  "unpriced it = it\<lparr>item_price := Fin 0, item_cost := Fin 0\<rparr>"

text \<open>The fault plan in which no write from number \<open>n\<close> on takes effect.\<close>

definition refuse_from :: "nat \<Rightarrow> faults" where
  "refuse_from n = (\<lambda>k. n \<le> k)"


text \<open>
  A small shop for the examples: the one product of the specification's scenarios, ten
  in stock, and an empty ledger; and the same shop down to its last unit.
\<close>

definition rice :: product where
  "rice = \<lparr>name = ''Rice 1kg'', category = ''Groceries'', barcode = Some ''001'',
            cost = Fin 40, price = Fin 50, stock = 10, min_stock = 20,
            created_at = 0, updated_at = 0\<rparr>"

definition shop :: store where
  "shop = \<lparr>products = [1 \<mapsto> rice], sales = [], sale_items = [],
            sales_seq = 0, sale_items_seq = 0\<rparr>"

definition last_unit :: store where
  "last_unit = \<lparr>products = [1 \<mapsto> rice\<lparr>stock := 1\<rparr>], sales = [], sale_items = [],
                 sales_seq = 0, sale_items_seq = 0\<rparr>"

definition sugar :: product where
  "sugar = \<lparr>name = ''Sugar 1kg'', category = ''Groceries'', barcode = Some ''002'',
             cost = Fin 35, price = Fin 45, stock = 80, min_stock = 15,
             created_at = 0, updated_at = 0\<rparr>"

text \<open>A shop with two products and one sale of two bags of sugar already in the ledger.\<close>

definition busy_shop :: store where
  "busy_shop =
     \<lparr>products = [1 \<mapsto> rice, 2 \<mapsto> sugar],
      sales = [\<lparr>sale_id = 1, sale_total = Fin 90, sale_profit = Fin 20, sale_created_at = 0\<rparr>],
      sale_items = [\<lparr>si_id = 1, si_sale_id = 1, si_product_id = 2,
                      si_product_name = ''Sugar 1kg'', si_quantity = 2,
                      si_price = Fin 45, si_cost = Fin 35\<rparr>],
      sales_seq = 1, sale_items_seq = 1\<rparr>"

definition cart_line :: "int \<Rightarrow> int \<Rightarrow> number \<Rightarrow> number \<Rightarrow> item" where
  "cart_line pid quantity p c =
     \<lparr>item_product_id = pid, item_product_name = ''Rice 1kg'', item_quantity = quantity,
      item_price = p, item_cost = c\<rparr>"

text \<open>The doubles of the decimal literals 19.99 and 15.49.\<close>

definition d19_99 :: real where
  "d19_99 = 5626684784446013 / 281474976710656"

definition d15_49 :: real where
  "d15_49 = 8720094778496123 / 562949953421312"

section \<open>Facts about the pieces\<close>

lemmas rd = round_double_def round_pos_def exponent_def pow2_def round_half_even_def bitlen_def
  compute_floorlog to_number_def js_sub_def Let_def

lemma promise_all_None: "promise_all (map f xs) = None \<longleftrightarrow> (\<forall>x\<in>set xs. f x = None)"
proof (induction xs)
  case Nil
  show ?case by simp
next
  case (Cons x xs)
  then show ?case by (cases "f x") simp_all
qed

lemma promise_all_first:
  "promise_all (map f xs) = Some e \<longleftrightarrow>
     (\<exists>pre x post. xs = pre @ x # post \<and> (\<forall>y\<in>set pre. f y = None) \<and> f x = Some e)"
proof (induction xs)
  case Nil
  show ?case by simp
next
  case (Cons a xs)
  show ?case
  proof (cases "f a")
    case None
    have "(\<exists>pre x post. a # xs = pre @ x # post \<and> (\<forall>y\<in>set pre. f y = None) \<and> f x = Some e)
       \<longleftrightarrow> (\<exists>pre x post. xs = pre @ x # post \<and> (\<forall>y\<in>set pre. f y = None) \<and> f x = Some e)"
      (is "?L \<longleftrightarrow> ?R")
    proof
      assume ?L
      then obtain pre x post
        where h: "a # xs = pre @ x # post" "\<forall>y\<in>set pre. f y = None" "f x = Some e"
        by blast
      show ?R
      proof (cases pre)
        case Nil
        with h None show ?thesis by simp
      next
        case (Cons b pre')
        with h have "xs = pre' @ x # post" "\<forall>y\<in>set pre'. f y = None" by simp_all
        with h(3) show ?thesis by blast
      qed
    next
      assume ?R
      then obtain pre x post
        where h: "xs = pre @ x # post" "\<forall>y\<in>set pre. f y = None" "f x = Some e"
        by blast
      then have "a # xs = (a # pre) @ x # post" "\<forall>y\<in>set (a # pre). f y = None"
        using None by simp_all
      with h(3) show ?L by blast
    qed
    with None Cons.IH show ?thesis by simp
  next
    case (Some e')
    have "(\<exists>pre x post. a # xs = pre @ x # post \<and> (\<forall>y\<in>set pre. f y = None) \<and> f x = Some e)
       \<longleftrightarrow> e' = e" (is "?L \<longleftrightarrow> _")
    proof
      assume ?L
      then obtain pre x post
        where h: "a # xs = pre @ x # post" "\<forall>y\<in>set pre. f y = None" "f x = Some e"
        by blast
      show "e' = e"
      proof (cases pre)
        case Nil
        with h Some show ?thesis by simp
      next
        case (Cons b pre')
        with h Some show ?thesis by simp
      qed
    next
      assume "e' = e"
      with Some have "a # xs = [] @ a # xs" "\<forall>y\<in>set []. f y = None" "f a = Some e"
        by simp_all
      then show ?L by blast
    qed
    with Some show ?thesis by simp
  qed
qed

lemma check_None:
  "check s it = None \<longleftrightarrow>
     (\<exists>row. products s (item_product_id it) = Some row \<and> item_quantity it \<le> stock row)"
  by (auto simp: check_def split: option.splits)

lemma check_SomeD:
  "check s it = Some e \<Longrightarrow>
     (products s (item_product_id it) = None \<and> e = ProductNotFound (item_product_id it))
   \<or> (\<exists>row. products s (item_product_id it) = Some row \<and> stock row < item_quantity it
           \<and> e = InsufficientStock (item_product_id it))"
  by (auto simp: check_def split: option.splits if_splits)

lemma stock_check_per_line:
  "promise_all (checkPromises s items) = None \<longleftrightarrow>
     (\<forall>it\<in>set items. \<exists>row. products s (item_product_id it) = Some row
                            \<and> item_quantity it \<le> stock row)"
  by (simp add: checkPromises_def promise_all_None check_None)

lemma write_items_sales [simp]: "sales (write_items plan sid k items s) = sales s"
  by (induction items arbitrary: k s)
     (simp_all add: update_stock_def insert_sale_item_def split: option.splits)

lemma write_items_sales_seq [simp]: "sales_seq (write_items plan sid k items s) = sales_seq s"
  by (induction items arbitrary: k s)
     (simp_all add: update_stock_def insert_sale_item_def split: option.splits)

lemma write_items_rows:
  "sale_items (write_items (\<lambda>j. False) sid k items s) =
     sale_items s @ item_rows sid (sale_items_seq s) items"
  by (induction items arbitrary: k s)
     (simp_all add: update_stock_def insert_sale_item_def split: option.splits)

lemma write_items_products:
  "products (write_items (\<lambda>j. False) sid k items s) pid =
     map_option (\<lambda>row. row\<lparr>stock := stock row - requested pid items\<rparr>) (products s pid)"
proof (induction items arbitrary: k s)
  case Nil
  show ?case by (simp add: requested_def option.map_ident)
next
  case (Cons it rest)
  show ?case
    by (cases "products s pid"; cases "products s (item_product_id it)")
       (auto simp: Cons.IH update_stock_def insert_sale_item_def requested_def)
qed

lemma post_sales_SuccessD:
  assumes "post_sales plan now s (Some items) = (s', Success sid tot profit)"
  shows "items \<noteq> []" and "promise_all (checkPromises s items) = None"
    and "\<not> sale_refused plan tot profit"
    and "sid = sales_seq s + 1" and "tot = calc_total items"
    and "profit = js_sub (calc_total items) (calc_totalCost items)"
    and "s' = write_items plan sid 1 items (insert_sale now tot profit s)"
  using assms
  by (auto simp: post_sales_def commit_def Let_def split: if_splits option.splits)


lemma post_sales_rejects:
  assumes "promise_all (checkPromises s items) = Some e"
  shows "post_sales plan now s (Some items) = (s, Failure 400 e)"
proof -
  have "items \<noteq> []" using assms by (auto simp: checkPromises_def)
  then show ?thesis using assms by (simp add: post_sales_def)
qed

lemma item_rows_sale_id:
  "filter (\<lambda>si. si_sale_id si = sid) (item_rows sid seq items) = item_rows sid seq items"
  by (induction items arbitrary: seq) simp_all

lemma foldl_item_rows:
  assumes "\<And>acc it seq. f acc \<lparr>si_id = seq, si_sale_id = sid, si_product_id = item_product_id it,
      si_product_name = item_product_name it, si_quantity = item_quantity it,
      si_price = item_price it, si_cost = item_cost it\<rparr> = g acc it"
  shows "foldl f z (item_rows sid seq items) = foldl g z items"
  by (induction items arbitrary: z seq) (simp_all add: assms)

lemma rows_total_item_rows: "rows_total (item_rows sid seq items) = calc_total items"
  unfolding rows_total_def calc_total_def by (rule foldl_item_rows) simp

lemma rows_cost_item_rows: "rows_cost (item_rows sid seq items) = calc_totalCost items"
  unfolding rows_cost_def calc_totalCost_def by (rule foldl_item_rows) simp

lemma rows_margin_item_rows: "rows_margin (item_rows sid seq items) = calc_profit items"
  unfolding rows_margin_def calc_profit_def by (rule foldl_item_rows) simp

lemma ledger_ok_no_rows: "ledger_ok s \<Longrightarrow> items_of (sales_seq s + 1) s = []"
  by (auto simp: ledger_ok_def items_of_def list_all_iff filter_empty_conv)

lemma write_items_ledger:
  assumes "list_all (\<lambda>si. si_sale_id si \<le> n) (sale_items s)" and "sid \<le> n"
  shows "list_all (\<lambda>si. si_sale_id si \<le> n) (sale_items (write_items plan sid k items s))"
  using assms(1)
proof (induction items arbitrary: k s)
  case Nil
  then show ?case by simp
next
  case (Cons it rest)
  have "list_all (\<lambda>si. si_sale_id si \<le> n)
          (sale_items (update_stock (plan (k + 1)) (item_quantity it) (item_product_id it)
             (insert_sale_item (plan k) sid it s)))"
    using Cons.prems assms(2)
    by (simp add: update_stock_def insert_sale_item_def split: option.splits)
  from Cons.IH [OF this] show ?case by simp
qed

lemma post_sales_keeps_ledger_ok:
  assumes "ledger_ok s"
  shows "ledger_ok (fst (post_sales plan now s body))"
proof -
  have "ledger_ok (fst (commit plan now s items))" for items
  proof (cases "sale_refused plan (calc_total items)
                  (js_sub (calc_total items) (calc_totalCost items))")
    case True
    with assms show ?thesis by (simp add: commit_def)
  next
    case False
    have "list_all (\<lambda>si. si_sale_id si \<le> sales_seq s + 1)
            (sale_items (insert_sale now a b s))" for a b
      using assms by (auto simp: ledger_ok_def insert_sale_def list_all_iff)
    from write_items_ledger [OF this, of "sales_seq s + 1"] False show ?thesis
      by (simp add: commit_def Let_def ledger_ok_def insert_sale_def)
  qed
  with assms show ?thesis
    by (simp add: post_sales_def split: option.splits)
qed

lemma requested_unreferenced:
  "pid \<notin> item_product_id ` set items \<Longrightarrow> requested pid items = 0"
proof -
  assume "pid \<notin> item_product_id ` set items"
  then have "filter (\<lambda>it. item_product_id it = pid) items = []"
    by (auto simp: filter_empty_conv)
  then show ?thesis by (simp add: requested_def)
qed


lemma requested_single:
  assumes "distinct (map item_product_id items)" and "it \<in> set items"
  shows "requested (item_product_id it) items = item_quantity it"
  using assms
proof (induction items)
  case Nil
  then show ?case by simp
next
  case (Cons x xs)
  show ?case
  proof (cases "x = it")
    case True
    with Cons.prems(1) have "item_product_id it \<notin> item_product_id ` set xs" by simp
    from requested_unreferenced [OF this] True show ?thesis by (simp add: requested_def)
  next
    case False
    with Cons.prems have "it \<in> set xs" "item_product_id x \<noteq> item_product_id it" by auto
    with Cons show ?thesis by (simp add: requested_def)
  qed
qed

lemma distinct_cart_keeps_stock:
  assumes "post_sales no_faults now s (Some items) = (s', Success sid tot profit)"
    and "distinct (map item_product_id items)"
    and "\<forall>pid row. products s pid = Some row \<longrightarrow> 0 \<le> stock row"
  shows "\<forall>pid row. products s' pid = Some row \<longrightarrow> 0 \<le> stock row"
proof (intro allI impI)
  fix pid row assume r: "products s' pid = Some row"
  note d = post_sales_SuccessD [OF assms(1)]
  have p: "products s' pid =
      map_option (\<lambda>row. row\<lparr>stock := stock row - requested pid items\<rparr>) (products s pid)"
    using d(7) by (simp add: no_faults_def write_items_products insert_sale_def)
  with r obtain old where old: "products s pid = Some old"
      "row = old\<lparr>stock := stock old - requested pid items\<rparr>" by auto
  show "0 \<le> stock row"
  proof (cases "pid \<in> item_product_id ` set items")
    case False
    from requested_unreferenced [OF this] old assms(3) show ?thesis by simp
  next
    case True
    then obtain it where it: "it \<in> set items" "item_product_id it = pid" by auto
    from d(2) it(1) have "check s it = None"
      by (simp add: checkPromises_def promise_all_None)
    with it(2) old(1) have "item_quantity it \<le> stock old" by (simp add: check_None)
    moreover have "requested pid items = item_quantity it"
      using requested_single [OF assms(2) it(1)] it(2) by simp
    ultimately show ?thesis using old(2) by simp
  qed
qed

lemma check_unpriced: "check s (unpriced it) = check s it"
  by (simp add: check_def unpriced_def split: option.splits)

lemma checkPromises_unpriced:
  assumes "map unpriced a = map unpriced b"
  shows "checkPromises s a = checkPromises s b"
proof -
  have "checkPromises s xs = map (check s) (map unpriced xs)" for xs
    unfolding checkPromises_def map_map by (rule map_cong) (simp_all add: check_unpriced)
  then have "checkPromises s a = map (check s) (map unpriced a)"
    and "checkPromises s b = map (check s) (map unpriced b)" by blast+
  then show ?thesis by (simp only: assms)
qed

lemma unpriced_eqD:
  "unpriced x = unpriced y \<Longrightarrow>
     item_product_id x = item_product_id y \<and> item_quantity x = item_quantity y"
  by (cases x, cases y) (simp add: unpriced_def)

lemma products_insert_sale_item [simp]:
  "products (insert_sale_item r sid it s) = products s"
  by (simp add: insert_sale_item_def)

lemma products_update_stock:
  "products s1 = products s2 \<Longrightarrow>
     products (update_stock r q pid s1) = products (update_stock r q pid s2)"
  by (simp add: update_stock_def split: option.splits)

lemma write_items_products_unpriced:
  "map unpriced a = map unpriced b \<Longrightarrow> products s1 = products s2 \<Longrightarrow>
     products (write_items plan sid k a s1) = products (write_items plan sid k b s2)"
proof (induction a arbitrary: b k s1 s2)
  case Nil
  then show ?case by simp
next
  case (Cons x xs)
  then obtain y ys
    where b: "b = y # ys" "unpriced x = unpriced y" "map unpriced xs = map unpriced ys"
    by (cases b) auto
  from unpriced_eqD [OF b(2)] have same: "item_product_id x = item_product_id y"
      "item_quantity x = item_quantity y" by simp_all
  have "products (update_stock (plan (k + 1)) (item_quantity x) (item_product_id x)
            (insert_sale_item (plan k) sid x s1))
      = products (update_stock (plan (k + 1)) (item_quantity y) (item_product_id y)
            (insert_sale_item (plan k) sid y s2))"
    unfolding same by (rule products_update_stock) (simp add: Cons.prems(2))
  from Cons.IH [OF b(3) this] show ?case by (simp add: b(1))
qed



lemma run_alone:
  "run plan now [Validate 0, Write 0] (s, [(body, Received)])
     = (fst (post_sales plan now s body), [(body, Answered (snd (post_sales plan now s body)))])"
  by (cases body)
     (auto simp: post_sales_def split: option.splits prod.splits)

lemma unchecked_accepts_missing_product:
  "post_sales_unchecked no_faults 0 shop (Some [cart_line 999 1 (Fin 50) (Fin 40)])
     = (shop\<lparr>sales := [\<lparr>sale_id = 1, sale_total = Fin 50, sale_profit = Fin 10,
                            sale_created_at = 0\<rparr>],
             sale_items := [\<lparr>si_id = 1, si_sale_id = 1, si_product_id = 999,
                              si_product_name = ''Rice 1kg'', si_quantity = 1,
                              si_price = Fin 50, si_cost = Fin 40\<rparr>],
             sales_seq := 1, sale_items_seq := 1\<rparr>,
        Success 1 (Fin 50) (Fin 10))"
  by (simp add: post_sales_unchecked_def shop_def cart_line_def calc_total_def calc_profit_def
      sale_refused_def no_faults_def insert_sale_def insert_sale_item_def update_stock_def rd)

lemmas ev = post_sales_def checkPromises_def check_def shop_def last_unit_def cart_line_def
  rice_def commit_def calc_total_def calc_totalCost_def sale_refused_def no_faults_def
  refuse_from_def insert_sale_def insert_sale_item_def update_stock_def rd

lemma commit_not_400: "snd (commit plan now s items) \<noteq> Failure 400 e"
  by (simp add: commit_def Let_def)

lemma post_sales_400:
  "post_sales plan now s (Some items) = (s, Failure 400 e) \<longleftrightarrow>
     (items = [] \<and> e = NoItems) \<or> promise_all (checkPromises s items) = Some e"
proof (cases "items = []")
  case True
  then show ?thesis by (auto simp: post_sales_def checkPromises_def)
next
  case False
  show ?thesis
  proof (cases "promise_all (checkPromises s items)")
    case None
    with False have "post_sales plan now s (Some items) = commit plan now s items"
      by (simp add: post_sales_def)
    with commit_not_400 [of plan now s items e] None False show ?thesis
      by (metis option.distinct(1) snd_conv)
  next
    case (Some err)
    with False show ?thesis by (auto simp: post_sales_def)
  qed
qed

lemma nan_profit_refuses_sale:
  "post_sales no_faults 0 shop (Some [cart_line 1 3 PosInf PosInf])
     = (shop, Failure 500 StorageError)"
  by (simp add: ev)






lemma js_add_NaN [simp]: "js_add x NaN = NaN"
  by (cases x) simp_all




lemma unchecked_profit_row_by_row:
  "snd (post_sales_unchecked no_faults 0 shop (Some [cart_line 1 3 (Fin d19_99) (Fin d15_49)]))
     = Success 1 (Fin (2110006794167255 / 35184372088832))
         (Fin (7599824371187709 / 562949953421312))"
  by (simp add: post_sales_unchecked_def shop_def cart_line_def calc_total_def calc_profit_def
      sale_refused_def no_faults_def rd d19_99_def d15_49_def)

section \<open>The stock check and duplicate lines\<close>

text \<open>
  Claim C1 says the quantities of all the lines naming one product are added up and the
  cart is rejected when the sum is more than the stock. The handler compares each line
  with the stock on its own (\<open>stock_check_per_line\<close>). With ten in stock, two lines of six
  for the same product ask for twelve, pass the check and are sold.
\<close>

theorem duplicate_lines_pass_check:
  "map_option stock (products shop 1) = Some 10
   \<and> requested 1 [cart_line 1 6 (Fin 50) (Fin 40), cart_line 1 6 (Fin 50) (Fin 40)] = 12
   \<and> snd (post_sales no_faults 0 shop
            (Some [cart_line 1 6 (Fin 50) (Fin 40), cart_line 1 6 (Fin 50) (Fin 40)]))
       = Success 1 (Fin 600) (Fin 120)"
  by (simp add: ev requested_def)

text \<open>
  Claim C2 says no sale drives a stock below zero. The same per-line check lets it
  happen: with ten in stock and nothing negative in the store, two lines of seven for the
  same product are sold and leave a stock of minus four. (With no product named twice the
  stock stays at or above zero: \<open>distinct_cart_keeps_stock\<close>.)
\<close>

theorem duplicate_lines_oversell:
  "map_option stock (products shop 1) = Some 10
   \<and> snd (post_sales no_faults 0 shop
            (Some [cart_line 1 7 (Fin 50) (Fin 40), cart_line 1 7 (Fin 50) (Fin 40)]))
       = Success 1 (Fin 700) (Fin 140)
   \<and> map_option stock
       (products (fst (post_sales no_faults 0 shop
                        (Some [cart_line 1 7 (Fin 50) (Fin 40), cart_line 1 7 (Fin 50) (Fin 40)]))) 1)
       = Some (- 4)"
  by (simp add: ev)

section \<open>Writes that take no effect\<close>

text \<open>
  Claim C3 as stated fails: a cart passes validation, no write after the sale insert
  takes effect, and the sale row stays in the ledger with no item row and no stock
  change, under a success response. The store is not what it was.
\<close>

theorem header_survives_later_fault_counterexample:
  "promise_all (checkPromises shop [cart_line 1 3 (Fin 50) (Fin 40)]) = None
   \<and> refuse_from 1 1
   \<and> post_sales (refuse_from 1) 0 shop (Some [cart_line 1 3 (Fin 50) (Fin 40)])
       = (shop\<lparr>sales := [\<lparr>sale_id = 1, sale_total = Fin 150, sale_profit = Fin 30,
                            sale_created_at = 0\<rparr>],
               sales_seq := 1\<rparr>,
          Success 1 (Fin 150) (Fin 30))
   \<and> shop\<lparr>sales := [\<lparr>sale_id = 1, sale_total = Fin 150, sale_profit = Fin 30,
                        sale_created_at = 0\<rparr>],
           sales_seq := 1\<rparr> \<noteq> shop"
  by (simp add: ev)

text \<open>
  Claim C3, amended. For a cart that passed validation, only the first write decides. If
  the sale insert fails (the database refuses it, or total or profit is NaN, which the
  \<open>NOT NULL\<close> columns do not take), the store is handed back as it was with status 500. If
  it goes through, the response is the success response and the sale row stays in
  \<open>sales\<close>, whatever happens to the item inserts and stock updates after it.
\<close>

theorem header_insert_decides:
  assumes "items \<noteq> []" and "promise_all (checkPromises s items) = None"
  shows "(sale_refused plan (calc_total items)
            (js_sub (calc_total items) (calc_totalCost items)) \<longrightarrow>
          post_sales plan now s (Some items) = (s, Failure 500 StorageError))
       \<and> (\<not> sale_refused plan (calc_total items)
              (js_sub (calc_total items) (calc_totalCost items)) \<longrightarrow>
            snd (post_sales plan now s (Some items))
              = Success (sales_seq s + 1) (calc_total items)
                  (js_sub (calc_total items) (calc_totalCost items))
          \<and> sales (fst (post_sales plan now s (Some items)))
              = sales s @ [\<lparr>sale_id = sales_seq s + 1, sale_total = calc_total items,
                             sale_profit = js_sub (calc_total items) (calc_totalCost items),
                             sale_created_at = now\<rparr>])"
  using assms by (simp add: post_sales_def commit_def Let_def insert_sale_def)

theorem header_insert_decides_witness:
  "[cart_line 1 3 (Fin 50) (Fin 40)] \<noteq> []
   \<and> promise_all (checkPromises shop [cart_line 1 3 (Fin 50) (Fin 40)]) = None
   \<and> refuse_from 0 0
   \<and> post_sales (refuse_from 0) 0 shop (Some [cart_line 1 3 (Fin 50) (Fin 40)])
       = (shop, Failure 500 StorageError)
   \<and> \<not> refuse_from 2 0
   \<and> snd (post_sales (refuse_from 2) 0 shop (Some [cart_line 1 3 (Fin 50) (Fin 40)]))
       = Success 1 (Fin 150) (Fin 30)
   \<and> sales (fst (post_sales (refuse_from 2) 0 shop (Some [cart_line 1 3 (Fin 50) (Fin 40)])))
       = [\<lparr>sale_id = 1, sale_total = Fin 150, sale_profit = Fin 30, sale_created_at = 0\<rparr>]
   \<and> promise_all (checkPromises shop [cart_line 1 3 PosInf PosInf]) = None
   \<and> js_sub (calc_total [cart_line 1 3 PosInf PosInf])
         (calc_totalCost [cart_line 1 3 PosInf PosInf]) = NaN
   \<and> post_sales no_faults 0 shop (Some [cart_line 1 3 PosInf PosInf])
       = (shop, Failure 500 StorageError)"
proof -
  have h1: "[cart_line 1 3 (Fin 50) (Fin 40)] \<noteq> []" by simp
  have h2: "promise_all (checkPromises shop [cart_line 1 3 (Fin 50) (Fin 40)]) = None"
    by (simp add: checkPromises_def check_def shop_def cart_line_def rice_def)
  have f0: "refuse_from 0 0" and f2: "\<not> refuse_from 2 0"
    by (simp_all add: refuse_from_def)
  have v: "calc_total [cart_line 1 3 (Fin 50) (Fin 40)] = Fin 150"
    "calc_totalCost [cart_line 1 3 (Fin 50) (Fin 40)] = Fin 120"
    "js_sub (Fin 150) (Fin 120) = Fin 30"
    "sales_seq shop = 0" "sales shop = []"
    by (simp_all add: calc_total_def calc_totalCost_def cart_line_def shop_def rd)
  have g1: "[cart_line 1 3 PosInf PosInf] \<noteq> []" by simp
  have g2: "promise_all (checkPromises shop [cart_line 1 3 PosInf PosInf]) = None"
    by (simp add: checkPromises_def check_def shop_def cart_line_def rice_def)
  have w: "calc_total [cart_line 1 3 PosInf PosInf] = PosInf"
    "calc_totalCost [cart_line 1 3 PosInf PosInf] = PosInf"
    "js_sub PosInf PosInf = NaN"
    by (simp_all add: calc_total_def calc_totalCost_def cart_line_def rd)
  from header_insert_decides [OF h1 h2, of "refuse_from 0" 0]
       header_insert_decides [OF h1 h2, of "refuse_from 2" 0]
       header_insert_decides [OF g1 g2, of no_faults 0] h1 h2 g2 f0 f2
  show ?thesis by (simp add: v w sale_refused_def)
qed

section \<open>Whose prices\<close>

text \<open>
  Claim C4 as stated fails: two carts that differ only in the price sent with the line
  are answered with different totals and profits. The handler never reads the price or
  cost of a product row.
\<close>

theorem client_price_decides_total_counterexample:
  "map unpriced [cart_line 1 3 (Fin 50) (Fin 40)] = map unpriced [cart_line 1 3 (Fin 1) (Fin 40)]
   \<and> snd (post_sales no_faults 0 shop (Some [cart_line 1 3 (Fin 50) (Fin 40)]))
       = Success 1 (Fin 150) (Fin 30)
   \<and> snd (post_sales no_faults 0 shop (Some [cart_line 1 3 (Fin 1) (Fin 40)]))
       = Success 1 (Fin 3) (Fin (- 117))"
  by (simp add: ev unpriced_def)

text \<open>
  Claim C4, amended. Take two carts that differ only in the price and cost fields of
  their lines. Validation treats them alike: one is rejected with status 400 and some
  error exactly when the other is, with the same error. An accepted cart gets the next
  sale id; the total sent back and stored in its sale row is the sum, as JavaScript
  computes it, of the sent price times quantity over its own lines, the profit that total
  minus the like sum of the sent costs; and when no write is lost its item rows carry the
  sent prices and costs. When both carts are accepted they get the same sale id and leave
  the same product table. (One of the two may still be turned down at the sale insert
  while the other is accepted: prices that make total or profit NaN, as in
  \<open>nan_profit_refuses_sale\<close>.)
\<close>

theorem totals_follow_client_prices:
  assumes "map unpriced a = map unpriced b"
  shows "(\<forall>e. post_sales plan now s (Some a) = (s, Failure 400 e)
               \<longleftrightarrow> post_sales plan now s (Some b) = (s, Failure 400 e))
       \<and> (\<forall>sa sid t p. post_sales plan now s (Some a) = (sa, Success sid t p) \<longrightarrow>
             sid = sales_seq s + 1
           \<and> t = calc_total a \<and> p = js_sub (calc_total a) (calc_totalCost a)
           \<and> sales sa = sales s @ [\<lparr>sale_id = sid, sale_total = calc_total a,
                                      sale_profit = js_sub (calc_total a) (calc_totalCost a),
                                      sale_created_at = now\<rparr>]
           \<and> ((\<forall>k. \<not> plan k) \<longrightarrow>
                 sale_items sa = sale_items s @ item_rows sid (sale_items_seq s) a)
           \<and> (\<forall>sb sid' t' p'. post_sales plan now s (Some b) = (sb, Success sid' t' p') \<longrightarrow>
                 sid' = sid \<and> products sb = products sa))"
proof (intro conjI allI impI)
  fix e
  have c: "checkPromises s a = checkPromises s b"
    by (rule checkPromises_unpriced [OF assms])
  have e: "a = [] \<longleftrightarrow> b = []"
    using arg_cong [OF assms, of length] by (cases a; cases b) simp_all
  show "post_sales plan now s (Some a) = (s, Failure 400 e)
          \<longleftrightarrow> post_sales plan now s (Some b) = (s, Failure 400 e)"
    unfolding post_sales_400 c e ..
next
  fix sa sid t p
  assume h: "post_sales plan now s (Some a) = (sa, Success sid t p)"
  note d = post_sales_SuccessD [OF h]
  show "sid = sales_seq s + 1" by (rule d(4))
  show "t = calc_total a" by (rule d(5))
  show "p = js_sub (calc_total a) (calc_totalCost a)" by (rule d(6))
  show "sales sa = sales s @ [\<lparr>sale_id = sid, sale_total = calc_total a,
                                 sale_profit = js_sub (calc_total a) (calc_totalCost a),
                                 sale_created_at = now\<rparr>]"
    unfolding d(7) using d(4,5,6) by (simp add: insert_sale_def)
  have rows_written: "sale_items (write_items (\<lambda>j. False) n k xs st)
                        = sale_items st @ item_rows n (sale_items_seq st) xs" for n k xs st
    by (induction xs arbitrary: k st)
       (simp_all add: update_stock_def insert_sale_item_def split: option.splits)
  {
    assume "\<forall>k. \<not> plan k"
    then have "plan = (\<lambda>j. False)" by (simp add: fun_eq_iff)
    then show "sale_items sa = sale_items s @ item_rows sid (sale_items_seq s) a"
      unfolding d(7) by (simp add: rows_written insert_sale_def)
  }
  {
    fix sb sid' t' p'
    assume hb: "post_sales plan now s (Some b) = (sb, Success sid' t' p')"
    note db = post_sales_SuccessD [OF hb]
    show "sid' = sid" using d(4) db(4) by simp
    have "products (write_items plan sid 1 b (insert_sale now t' p' s))
        = products (write_items plan sid 1 a (insert_sale now t p s))"
      by (rule write_items_products_unpriced [OF assms [symmetric]])
         (simp add: insert_sale_def)
    then show "products sb = products sa"
      unfolding d(7) db(7) using d(4) db(4) by simp
  }
qed

theorem totals_follow_client_prices_witness:
  "map unpriced [cart_line 1 3 (Fin 50) (Fin 40)] = map unpriced [cart_line 1 3 (Fin 1) (Fin 40)]
   \<and> post_sales no_faults 0 shop (Some [cart_line 1 3 (Fin 1) (Fin 40)])
       = (fst (post_sales no_faults 0 shop (Some [cart_line 1 3 (Fin 1) (Fin 40)])),
          Success 1 (Fin 3) (Fin (- 117)))
   \<and> sales (fst (post_sales no_faults 0 shop (Some [cart_line 1 3 (Fin 1) (Fin 40)])))
       = [\<lparr>sale_id = 1, sale_total = Fin 3, sale_profit = Fin (- 117), sale_created_at = 0\<rparr>]
   \<and> sale_items (fst (post_sales no_faults 0 shop (Some [cart_line 1 3 (Fin 1) (Fin 40)])))
       = [\<lparr>si_id = 1, si_sale_id = 1, si_product_id = 1, si_product_name = ''Rice 1kg'',
           si_quantity = 3, si_price = Fin 1, si_cost = Fin 40\<rparr>]
   \<and> post_sales no_faults 0 shop (Some [cart_line 1 3 (Fin 50) (Fin 40)])
       = (fst (post_sales no_faults 0 shop (Some [cart_line 1 3 (Fin 50) (Fin 40)])),
          Success 1 (Fin 150) (Fin 30))
   \<and> products (fst (post_sales no_faults 0 shop (Some [cart_line 1 3 (Fin 50) (Fin 40)])))
       = products (fst (post_sales no_faults 0 shop (Some [cart_line 1 3 (Fin 1) (Fin 40)])))"
proof -
  let ?a = "[cart_line 1 3 (Fin 1) (Fin 40)]" and ?b = "[cart_line 1 3 (Fin 50) (Fin 40)]"
  have h: "map unpriced ?a = map unpriced ?b"
    by (simp add: unpriced_def cart_line_def)
  have ra: "post_sales no_faults 0 shop (Some ?a)
              = (fst (post_sales no_faults 0 shop (Some ?a)), Success 1 (Fin 3) (Fin (- 117)))"
    by (simp add: ev)
  have rb: "post_sales no_faults 0 shop (Some ?b)
              = (fst (post_sales no_faults 0 shop (Some ?b)), Success 1 (Fin 150) (Fin 30))"
    by (simp add: ev)
  have nf: "\<forall>k. \<not> no_faults k" by (simp add: no_faults_def)
  have v: "calc_total ?a = Fin 3" "calc_totalCost ?a = Fin 120"
    "js_sub (Fin 3) (Fin 120) = Fin (- 117)" "sales shop = []" "sale_items shop = []"
    "sale_items_seq shop = 0"
    "item_product_id (cart_line 1 3 (Fin 1) (Fin 40)) = 1"
    "item_product_name (cart_line 1 3 (Fin 1) (Fin 40)) = ''Rice 1kg''"
    "item_quantity (cart_line 1 3 (Fin 1) (Fin 40)) = 3"
    "item_price (cart_line 1 3 (Fin 1) (Fin 40)) = Fin 1"
    "item_cost (cart_line 1 3 (Fin 1) (Fin 40)) = Fin 40"
    by (simp_all add: calc_total_def calc_totalCost_def cart_line_def shop_def rd)
  from totals_follow_client_prices [OF h, of no_faults 0 shop] ra rb nf
  have "sales (fst (post_sales no_faults 0 shop (Some ?a)))
          = sales shop @ [\<lparr>sale_id = 1, sale_total = calc_total ?a,
                            sale_profit = js_sub (calc_total ?a) (calc_totalCost ?a),
                            sale_created_at = 0\<rparr>]"
    and "sale_items (fst (post_sales no_faults 0 shop (Some ?a)))
          = sale_items shop @ item_rows 1 (sale_items_seq shop) ?a"
    and "products (fst (post_sales no_faults 0 shop (Some ?b)))
          = products (fst (post_sales no_faults 0 shop (Some ?a)))"
    by blast+
  moreover have "sales (fst (post_sales no_faults 0 shop (Some ?a)))
          = [\<lparr>sale_id = 1, sale_total = Fin 3, sale_profit = Fin (- 117), sale_created_at = 0\<rparr>]"
    and "sale_items (fst (post_sales no_faults 0 shop (Some ?a)))
          = [\<lparr>si_id = 1, si_sale_id = 1, si_product_id = 1, si_product_name = ''Rice 1kg'',
              si_quantity = 3, si_price = Fin 1, si_cost = Fin 40\<rparr>]"
    by (simp_all add: ev)
  ultimately show ?thesis using ra rb h
    by (simp add: v)
qed

section \<open>What a sale that went through leaves behind\<close>

text \<open>
  Claim C5 as stated fails: the stored profit is not exactly the sum over the stored
  item rows of (price minus cost) times quantity. For three units at price 19.99 and cost
  15.49 the handler stores total minus total cost, which is 13.5, while that sum for the
  one stored row is 13.499999999999995, computed in doubles or exactly.
\<close>

theorem stored_profit_not_row_sum_counterexample:
  "snd (post_sales no_faults 0 shop (Some [cart_line 1 3 (Fin d19_99) (Fin d15_49)]))
     = Success 1 (Fin (2110006794167255 / 35184372088832)) (Fin (27 / 2))
   \<and> map sale_profit
       (sales (fst (post_sales no_faults 0 shop (Some [cart_line 1 3 (Fin d19_99) (Fin d15_49)]))))
       = [Fin (27 / 2)]
   \<and> rows_margin
       (items_of 1 (fst (post_sales no_faults 0 shop
                           (Some [cart_line 1 3 (Fin d19_99) (Fin d15_49)]))))
       = Fin (7599824371187709 / 562949953421312)
   \<and> (d19_99 - d15_49) * 3 = 7599824371187709 / 562949953421312
   \<and> (27 / 2 :: real) \<noteq> 7599824371187709 / 562949953421312"
  by (simp add: ev items_of_def rows_margin_def d19_99_def d15_49_def)

text \<open>
  Claim C5, amended. When no write is lost and the request is answered with success, the
  sale row appended to \<open>sales\<close> carries the id of the response; its total is the sum of
  price times quantity over the item rows stored under that id, and its profit is that
  total minus the sum of cost times quantity over the same rows, each sum computed as the
  handler computes it: in doubles, row after row from 0. The ledger must be in order
  beforehand, so that no older row already sits under the new id.
\<close>

theorem sale_totals_reconcile:
  assumes "post_sales no_faults now s (Some items) = (s', Success sid tot profit)"
    and "ledger_ok s"
  shows "\<exists>row. sales s' = sales s @ [row] \<and> sale_id row = sid
           \<and> sale_total row = rows_total (items_of sid s')
           \<and> sale_profit row = js_sub (rows_total (items_of sid s')) (rows_cost (items_of sid s'))"
proof -
  note d = post_sales_SuccessD [OF assms(1)]
  have old: "items_of sid s = []"
    using ledger_ok_no_rows [OF assms(2)] d(4) by simp
  have rows_written: "sale_items (write_items (\<lambda>j. False) n k xs st)
                        = sale_items st @ item_rows n (sale_items_seq st) xs" for n k xs st
    by (induction xs arbitrary: k st)
       (simp_all add: update_stock_def insert_sale_item_def split: option.splits)
  have "sale_items s' = sale_items s @ item_rows sid (sale_items_seq s) items"
    using d(7) by (simp add: no_faults_def rows_written insert_sale_def)
  then have mine: "items_of sid s' = item_rows sid (sale_items_seq s) items"
    using old by (simp add: items_of_def item_rows_sale_id)
  have "sales s' = sales s @ [\<lparr>sale_id = sid, sale_total = tot, sale_profit = profit,
                                sale_created_at = now\<rparr>]"
    using d(7) d(4) by (simp add: insert_sale_def)
  then show ?thesis
    using mine d(5) d(6) by (simp add: rows_total_item_rows rows_cost_item_rows)
qed

theorem sale_totals_reconcile_witness:
  "post_sales no_faults 0 shop (Some [cart_line 1 3 (Fin d19_99) (Fin d15_49)])
     = (fst (post_sales no_faults 0 shop (Some [cart_line 1 3 (Fin d19_99) (Fin d15_49)])),
        Success 1 (Fin (2110006794167255 / 35184372088832)) (Fin (27 / 2)))
   \<and> ledger_ok shop
   \<and> (\<exists>row. sales (fst (post_sales no_faults 0 shop
                             (Some [cart_line 1 3 (Fin d19_99) (Fin d15_49)])))
                 = sales shop @ [row]
          \<and> sale_id row = 1
          \<and> sale_total row =
               rows_total (items_of 1 (fst (post_sales no_faults 0 shop
                                             (Some [cart_line 1 3 (Fin d19_99) (Fin d15_49)]))))
          \<and> sale_profit row =
               js_sub
                 (rows_total (items_of 1 (fst (post_sales no_faults 0 shop
                                             (Some [cart_line 1 3 (Fin d19_99) (Fin d15_49)])))))
                 (rows_cost (items_of 1 (fst (post_sales no_faults 0 shop
                                             (Some [cart_line 1 3 (Fin d19_99) (Fin d15_49)]))))))
   \<and> map sale_total
       (sales (fst (post_sales no_faults 0 shop (Some [cart_line 1 3 (Fin d19_99) (Fin d15_49)]))))
       = [Fin (2110006794167255 / 35184372088832)]
   \<and> rows_total
       (items_of 1 (fst (post_sales no_faults 0 shop
                           (Some [cart_line 1 3 (Fin d19_99) (Fin d15_49)]))))
       = Fin (2110006794167255 / 35184372088832)
   \<and> rows_cost
       (items_of 1 (fst (post_sales no_faults 0 shop
                           (Some [cart_line 1 3 (Fin d19_99) (Fin d15_49)]))))
       = Fin (1635017770968023 / 35184372088832)"
proof -
  have h1: "post_sales no_faults 0 shop (Some [cart_line 1 3 (Fin d19_99) (Fin d15_49)])
     = (fst (post_sales no_faults 0 shop (Some [cart_line 1 3 (Fin d19_99) (Fin d15_49)])),
        Success 1 (Fin (2110006794167255 / 35184372088832)) (Fin (27 / 2)))"
    by (simp add: ev d19_99_def d15_49_def)
  have h2: "ledger_ok shop"
    by (simp add: ledger_ok_def shop_def)
  have chk: "map sale_total
       (sales (fst (post_sales no_faults 0 shop (Some [cart_line 1 3 (Fin d19_99) (Fin d15_49)]))))
       = [Fin (2110006794167255 / 35184372088832)]"
    "rows_total
       (items_of 1 (fst (post_sales no_faults 0 shop
                           (Some [cart_line 1 3 (Fin d19_99) (Fin d15_49)]))))
       = Fin (2110006794167255 / 35184372088832)"
    "rows_cost
       (items_of 1 (fst (post_sales no_faults 0 shop
                           (Some [cart_line 1 3 (Fin d19_99) (Fin d15_49)]))))
       = Fin (1635017770968023 / 35184372088832)"
    by (simp_all add: ev items_of_def rows_total_def rows_cost_def d19_99_def d15_49_def)
  from sale_totals_reconcile [OF h1 h2] h1 h2 chk show ?thesis by blast
qed

text \<open>
  Claim C8. When no write is lost and the request is answered with success, every
  product row is what it was except that its stock has gone down by the quantities of all
  the cart lines naming it, added up; a product no line names is untouched; and the sales
  and the item rows recorded before are still there, in place, with one sale row and the
  new item rows after them.
\<close>

theorem commit_frame:
  assumes "post_sales no_faults now s (Some items) = (s', Success sid tot profit)"
  shows "(\<forall>pid. products s' pid =
            map_option (\<lambda>row. row\<lparr>stock := stock row - requested pid items\<rparr>) (products s pid))
       \<and> (\<forall>pid. pid \<notin> item_product_id ` set items \<longrightarrow> products s' pid = products s pid)
       \<and> (\<exists>row. sales s' = sales s @ [row])
       \<and> (\<exists>rows. sale_items s' = sale_items s @ rows)"
proof -
  note d = post_sales_SuccessD [OF assms]
  have stock_written: "products (write_items (\<lambda>j. False) n k xs st) p
        = map_option (\<lambda>r. r\<lparr>stock := stock r - requested p xs\<rparr>) (products st p)"
    for n k xs st p
  proof (induction xs arbitrary: k st)
    case Nil
    show ?case by (simp add: requested_def option.map_ident)
  next
    case (Cons x rest)
    show ?case
      by (cases "products st p"; cases "products st (item_product_id x)")
         (auto simp: Cons.IH update_stock_def insert_sale_item_def requested_def)
  qed
  have p: "products s' pid =
            map_option (\<lambda>row. row\<lparr>stock := stock row - requested pid items\<rparr>) (products s pid)" for pid
    using d(7) by (simp add: no_faults_def stock_written insert_sale_def)
  have u: "products s' pid = products s pid" if "pid \<notin> item_product_id ` set items" for pid
    using p [of pid] requested_unreferenced [OF that] by (simp add: option.map_ident)
  have "sales s' = sales s @ [\<lparr>sale_id = sid, sale_total = tot, sale_profit = profit,
                                sale_created_at = now\<rparr>]"
    using d(7) d(4) by (simp add: insert_sale_def)
  moreover have "sale_items s' = sale_items s @ item_rows sid (sale_items_seq s) items"
    using d(7) by (simp add: no_faults_def write_items_rows insert_sale_def)
  ultimately show ?thesis using p u by blast
qed

theorem commit_frame_witness:
  "post_sales no_faults 0 busy_shop (Some [cart_line 1 3 (Fin 50) (Fin 40)])
     = (fst (post_sales no_faults 0 busy_shop (Some [cart_line 1 3 (Fin 50) (Fin 40)])),
        Success 2 (Fin 150) (Fin 30))
   \<and> products (fst (post_sales no_faults 0 busy_shop (Some [cart_line 1 3 (Fin 50) (Fin 40)]))) 1
       = Some (rice\<lparr>stock := 7\<rparr>)
   \<and> 2 \<notin> item_product_id ` set [cart_line 1 3 (Fin 50) (Fin 40)]
   \<and> products (fst (post_sales no_faults 0 busy_shop (Some [cart_line 1 3 (Fin 50) (Fin 40)]))) 2
       = Some sugar
   \<and> (\<exists>row. sales (fst (post_sales no_faults 0 busy_shop
                            (Some [cart_line 1 3 (Fin 50) (Fin 40)])))
               = [\<lparr>sale_id = 1, sale_total = Fin 90, sale_profit = Fin 20,
                    sale_created_at = 0\<rparr>, row])
   \<and> (\<exists>rows. sale_items (fst (post_sales no_faults 0 busy_shop
                                  (Some [cart_line 1 3 (Fin 50) (Fin 40)])))
               = \<lparr>si_id = 1, si_sale_id = 1, si_product_id = 2,
                   si_product_name = ''Sugar 1kg'', si_quantity = 2,
                   si_price = Fin 45, si_cost = Fin 35\<rparr> # rows)"
proof -
  let ?s' = "fst (post_sales no_faults 0 busy_shop (Some [cart_line 1 3 (Fin 50) (Fin 40)]))"
  have h1: "post_sales no_faults 0 busy_shop (Some [cart_line 1 3 (Fin 50) (Fin 40)])
     = (?s', Success 2 (Fin 150) (Fin 30))"
    by (simp add: post_sales_def checkPromises_def check_def busy_shop_def cart_line_def
        rice_def commit_def calc_total_def calc_totalCost_def sale_refused_def no_faults_def rd)
  have h2: "2 \<notin> item_product_id ` set [cart_line 1 3 (Fin 50) (Fin 40)]"
    by (simp add: cart_line_def)
  have v: "products busy_shop 1 = Some rice" "products busy_shop 2 = Some sugar"
    "requested 1 [cart_line 1 3 (Fin 50) (Fin 40)] = 3" "stock rice = 10"
    "sales busy_shop = [\<lparr>sale_id = 1, sale_total = Fin 90, sale_profit = Fin 20,
                           sale_created_at = 0\<rparr>]"
    "sale_items busy_shop = [\<lparr>si_id = 1, si_sale_id = 1, si_product_id = 2,
                   si_product_name = ''Sugar 1kg'', si_quantity = 2,
                   si_price = Fin 45, si_cost = Fin 35\<rparr>]"
    by (simp_all add: busy_shop_def requested_def cart_line_def rice_def)
  note f = commit_frame [OF h1]
  from f have "products ?s' 1 =
          map_option (\<lambda>row. row\<lparr>stock := stock row - requested 1 [cart_line 1 3 (Fin 50) (Fin 40)]\<rparr>)
            (products busy_shop 1)"
    by blast
  then have a: "products ?s' 1 = Some (rice\<lparr>stock := 7\<rparr>)"
    by (simp add: v)
  from f h2 have "products ?s' 2 = products busy_shop 2" by blast
  then have b: "products ?s' 2 = Some sugar" by (simp add: v)
  from f obtain row where "sales ?s' = sales busy_shop @ [row]" by blast
  then have c: "\<exists>row. sales ?s' = [\<lparr>sale_id = 1, sale_total = Fin 90, sale_profit = Fin 20,
                    sale_created_at = 0\<rparr>, row]"
    by (simp add: v)
  from f obtain rows where "sale_items ?s' = sale_items busy_shop @ rows" by blast
  then have d: "\<exists>rows. sale_items ?s' = \<lparr>si_id = 1, si_sale_id = 1, si_product_id = 2,
                   si_product_name = ''Sugar 1kg'', si_quantity = 2,
                   si_price = Fin 45, si_cost = Fin 35\<rparr> # rows"
    by (simp add: v)
  from h1 h2 a b c d show ?thesis by blast
qed

section \<open>Two requests for the last unit\<close>




section \<open>What a rejected cart leaves behind\<close>

text \<open>
  Claim C7. A request with no items, with an empty cart, or with a line whose product is
  missing or whose quantity is more than the product's stock is answered with status 400
  and an error that is not a storage error, and the store handed back is the store handed
  in, whatever the fault plan.
\<close>

theorem validation_failure_no_mutation:
  assumes "body = None \<or> body = Some []
         \<or> (\<exists>items it. body = Some items \<and> it \<in> set items
               \<and> (products s (item_product_id it) = None
                    \<or> (\<exists>row. products s (item_product_id it) = Some row
                           \<and> stock row < item_quantity it)))"
  shows "\<exists>e. post_sales plan now s body = (s, Failure 400 e) \<and> e \<noteq> StorageError"
proof -
  consider (missing) "body = None" | (empty) "body = Some []"
    | (bad) items it where "body = Some items" "it \<in> set items"
        "products s (item_product_id it) = None
         \<or> (\<exists>row. products s (item_product_id it) = Some row \<and> stock row < item_quantity it)"
    using assms by blast
  then show ?thesis
  proof cases
    case missing
    then show ?thesis by (simp add: post_sales_def)
  next
    case empty
    then show ?thesis by (simp add: post_sales_def)
  next
    case bad
    from bad(3) have "check s it \<noteq> None"
      by (auto simp: check_def)
    with bad(2) have "promise_all (checkPromises s items) \<noteq> None"
      by (auto simp: checkPromises_def promise_all_None)
    then obtain e where e: "promise_all (checkPromises s items) = Some e" by blast
    then obtain x where "check s x = Some e"
      unfolding checkPromises_def promise_all_first by blast
    then have "e \<noteq> StorageError" by (auto dest: check_SomeD)
    with post_sales_rejects [OF e] bad(1) show ?thesis by blast
  qed
qed

theorem validation_failure_no_mutation_witness:
  "cart_line 1 11 (Fin 50) (Fin 40) \<in> set [cart_line 1 11 (Fin 50) (Fin 40)]
   \<and> products shop (item_product_id (cart_line 1 11 (Fin 50) (Fin 40))) = Some rice
   \<and> stock rice < item_quantity (cart_line 1 11 (Fin 50) (Fin 40))
   \<and> (\<exists>e. post_sales no_faults 0 shop (Some [cart_line 1 11 (Fin 50) (Fin 40)]) = (shop, Failure 400 e)
          \<and> e \<noteq> StorageError)"
proof -
  have h: "cart_line 1 11 (Fin 50) (Fin 40) \<in> set [cart_line 1 11 (Fin 50) (Fin 40)]"
      "products shop (item_product_id (cart_line 1 11 (Fin 50) (Fin 40))) = Some rice"
      "stock rice < item_quantity (cart_line 1 11 (Fin 50) (Fin 40))"
    by (simp_all add: shop_def cart_line_def rice_def)
  then have "Some [cart_line 1 11 (Fin 50) (Fin 40)] = None \<or> Some [cart_line 1 11 (Fin 50) (Fin 40)] = Some []
         \<or> (\<exists>items it. Some [cart_line 1 11 (Fin 50) (Fin 40)] = Some items \<and> it \<in> set items
               \<and> (products shop (item_product_id it) = None
                    \<or> (\<exists>row. products shop (item_product_id it) = Some row
                           \<and> stock row < item_quantity it)))"
    by blast
  from validation_failure_no_mutation [OF this, of no_faults 0] h show ?thesis by blast
qed

text \<open>
  Claim C9 as stated fails: a cart with a line for a missing product is not always
  answered with "product not found". Here the line before it asks for more rice than
  there is, and its error is the one reported.
\<close>

theorem missing_product_after_short_line_counterexample:
  "products shop 999 = None
   \<and> post_sales no_faults 0 shop (Some [cart_line 1 11 (Fin 50) (Fin 40), cart_line 999 1 (Fin 50) (Fin 40)])
       = (shop, Failure 400 (InsufficientStock 1))"
  by (simp add: post_sales_def checkPromises_def check_def shop_def cart_line_def rice_def)

text \<open>
  Claim C9, amended. A cart with a line for a missing product is always rejected with
  status 400 and the store unchanged, and the error is that of the first line in cart
  order that fails its own check: every line before it names a product that exists with
  enough stock for that line, and the error is "product not found" for that line's
  product when it is missing and "insufficient stock" for it when it is short.
\<close>

theorem first_failing_line_rejects:
  assumes "it \<in> set items" and "products s (item_product_id it) = None"
  shows "\<exists>pre x post. items = pre @ x # post
           \<and> (\<forall>y\<in>set pre. \<exists>row. products s (item_product_id y) = Some row
                               \<and> item_quantity y \<le> stock row)
           \<and> (products s (item_product_id x) = None
                \<and> post_sales plan now s (Some items)
                     = (s, Failure 400 (ProductNotFound (item_product_id x)))
              \<or> (\<exists>row. products s (item_product_id x) = Some row \<and> stock row < item_quantity x)
                \<and> post_sales plan now s (Some items)
                     = (s, Failure 400 (InsufficientStock (item_product_id x))))"
proof -
  from assms(2) have "check s it \<noteq> None" by (simp add: check_def)
  with assms(1) have "promise_all (checkPromises s items) \<noteq> None"
    by (auto simp: checkPromises_def promise_all_None)
  then obtain e where e: "promise_all (checkPromises s items) = Some e" by blast
  then obtain pre x post where split: "items = pre @ x # post"
      and pre: "\<forall>y\<in>set pre. check s y = None" and x: "check s x = Some e"
    unfolding checkPromises_def promise_all_first by blast
  from pre have "\<forall>y\<in>set pre. \<exists>row. products s (item_product_id y) = Some row
                               \<and> item_quantity y \<le> stock row"
    by (simp add: check_None)
  with split check_SomeD [OF x] post_sales_rejects [OF e, of plan now] show ?thesis
    by blast
qed

theorem first_failing_line_rejects_witness:
  "cart_line 999 1 (Fin 50) (Fin 40) \<in> set [cart_line 999 1 (Fin 50) (Fin 40)]
   \<and> products shop (item_product_id (cart_line 999 1 (Fin 50) (Fin 40))) = None
   \<and> post_sales no_faults 0 shop (Some [cart_line 999 1 (Fin 50) (Fin 40)])
       = (shop, Failure 400 (ProductNotFound 999))"
proof -
  have h: "cart_line 999 1 (Fin 50) (Fin 40) \<in> set [cart_line 999 1 (Fin 50) (Fin 40)]"
      "products shop (item_product_id (cart_line 999 1 (Fin 50) (Fin 40))) = None"
    by (simp_all add: shop_def cart_line_def)
  from first_failing_line_rejects [OF h, of no_faults 0]
  obtain pre x post where "[cart_line 999 1 (Fin 50) (Fin 40)] = pre @ x # post"
    and r: "post_sales no_faults 0 shop (Some [cart_line 999 1 (Fin 50) (Fin 40)])
              = (shop, Failure 400 (ProductNotFound (item_product_id x)))
          \<or> post_sales no_faults 0 shop (Some [cart_line 999 1 (Fin 50) (Fin 40)])
              = (shop, Failure 400 (InsufficientStock (item_product_id x)))"
    by blast
  then have "x = cart_line 999 1 (Fin 50) (Fin 40)"
    by (cases pre) simp_all
  with r h show ?thesis
    by (auto simp: post_sales_def checkPromises_def check_def shop_def cart_line_def)
qed

section \<open>Quantities at or below zero\<close>



end
